theory Spec2Isabelle
  imports Complex_Main "HOL-Library.Sublist"
begin

section \<open>Path reconstruction under graph constraints: a model of the Python sources\<close>

text \<open>
  Segment (link) ids and token indices are Python integers, modelled as \<open>int\<close>.
  Paths are tuples or arrays of link ids, modelled as \<open>int list\<close>.  Exceptions are
  values of \<open>py_error\<close>; a function that can raise returns \<open>py_error + 'a\<close>.
\<close>

datatype py_error = IndexError | KeyError | ZeroDivisionError

subsection \<open>utils.py: is_path_subsequence_of_path\<close>

text \<open>
  The \<open>for item in sequence\<close> loop of \<open>is_path_subsequence_of_path\<close>, with the
  loop variable \<open>sub_idx\<close> as an argument.  The early \<open>return True\<close> inside the loop is
  the inner \<open>if\<close>; the final \<open>return sub_idx == len(subsequence)\<close> is the empty case.
\<close>

fun subsequence_scan :: "'a list \<Rightarrow> nat \<Rightarrow> 'a list \<Rightarrow> bool" where
  "subsequence_scan subsequence sub_idx [] = (sub_idx = length subsequence)"
| "subsequence_scan subsequence sub_idx (item # rest) =
     (if sub_idx < length subsequence \<and> item = subsequence ! sub_idx
      then (if sub_idx + 1 = length subsequence then True
            else subsequence_scan subsequence (sub_idx + 1) rest)
      else subsequence_scan subsequence sub_idx rest)"

definition is_path_subsequence_of_path :: "'a list \<Rightarrow> 'a list \<Rightarrow> bool" where
  "is_path_subsequence_of_path subsequence sequence =
     (if length subsequence = 0 then True else subsequence_scan subsequence 0 sequence)"

subsection \<open>The road network and the token vocabulary\<close>

text \<open>
  The road network object, as the sources read it: \<open>get_num_links(network)\<close> is
  \<open>len(network.edges)\<close>; \<open>network.graph['neighbor_links_O']\<close> is a dict from a link to
  the list of its downstream links; \<open>network.graph['link_nodes_dict']\<close> is a dict from a
  link to its (start node, end node), kept as an association list in insertion order
  because the sources iterate over its items; \<open>shortest_path\<close> stands for
  \<open>nx.shortest_path(network, a, b)\<close>, with \<open>None\<close> when it raises; \<open>edge_length\<close> is
  \<open>network.edges[n1, n2]['LENGTH']\<close>.
\<close>

record network =
  num_links :: nat
  neighbor_links_O :: "int \<Rightarrow> int list option"
  link_nodes_dict :: "(int \<times> int \<times> int) list"
  shortest_path :: "int \<Rightarrow> int \<Rightarrow> int list option"
  edge_length :: "int \<times> int \<Rightarrow> real option"

definition get_num_links :: "network \<Rightarrow> nat" where
  "get_num_links nw = num_links nw"

text \<open>\<open>neighbor_links_O.get(link, [])\<close>\<close>

definition neighbors :: "network \<Rightarrow> int \<Rightarrow> int list" where
  "neighbors nw link = (case neighbor_links_O nw link of None \<Rightarrow> [] | Some ls \<Rightarrow> ls)"

text \<open>\<open>self.tokens = ['bos', 'eos', 'mos', 'pos']\<close>: begin, end, mask, padding.\<close>

datatype token = bos | eos | mos | pos

fun token_position :: "token \<Rightarrow> nat" where
  "token_position bos = 0"
| "token_position eos = 1"
| "token_position mos = 2"
| "token_position pos = 3"

text \<open>
  \<open>for i, token in enumerate(self.tokens): self.token_indexs[token] = get_num_links(network) + i\<close>
\<close>

definition make_token_indexs :: "network \<Rightarrow> token \<Rightarrow> int" where
  "make_token_indexs nw t = int (get_num_links nw) + int (token_position t)"

subsection \<open>routesformer.py: DataGenerator\<close>

text \<open>
  The fields of the configuration objects that the modelled code reads.  \<open>max_len\<close> is a
  natural number: a negative \<open>max_len\<close> behaves as 0 in \<open>range(max_len)\<close> and in
  \<open>len(path_src) < max_len\<close>.  \<open>attributes_dict\<close> is represented by its keys.
\<close>

record experiment_config =
  cfg_max_len :: nat
  cfg_attributes_dict :: "string list"

record data_generator =
  dg_max_len :: nat
  dg_token_indexs :: "token \<Rightarrow> int"
  is_onehot_embedding :: bool

definition DataGenerator_init :: "network \<Rightarrow> experiment_config \<Rightarrow> data_generator" where
  "DataGenerator_init nw experiment_config =
     \<lparr> dg_max_len = cfg_max_len experiment_config,
       dg_token_indexs = make_token_indexs nw,
       is_onehot_embedding = (''onehot_embedding'' \<notin> set (cfg_attributes_dict experiment_config)) \<rparr>"

text \<open>
  The \<open>link\<close> argument of \<open>construct_point_info\<close> is either one of the four token names
  (a key of \<open>token_indexs\<close>) or a link id.
\<close>

datatype point = Token token | Link int

text \<open>
  \<open>v = np.zeros(n); v[i] = 1\<close>: a negative index counts from the end, an index out of
  range raises IndexError.  The entries (floats 0.0 and 1.0) are written as integers.
\<close>

definition onehot_vector :: "nat \<Rightarrow> int \<Rightarrow> py_error + int list" where
  "onehot_vector n i =
     (if 0 \<le> i \<and> i < int n then Inr ((replicate n 0)[nat i := 1])
      else if - int n \<le> i \<and> i < 0 then Inr ((replicate n 0)[nat (int n + i) := 1])
      else Inl IndexError)"

definition construct_point_info :: "data_generator \<Rightarrow> network \<Rightarrow> point \<Rightarrow> py_error + int list" where
  "construct_point_info dg nw link =
     (case link of
        Token t \<Rightarrow>
          if is_onehot_embedding dg
          then (case onehot_vector (get_num_links nw + 4) (dg_token_indexs dg t) of
                  Inl e \<Rightarrow> Inl e
                | Inr onehot_embedding \<Rightarrow> Inr (onehot_embedding @ [0]))
          else Inr ([dg_token_indexs dg t] @ [0])
      | Link l \<Rightarrow>
          if is_onehot_embedding dg
          then (case onehot_vector (get_num_links nw + 4) l of
                  Inl e \<Rightarrow> Inl e
                | Inr onehot_embedding \<Rightarrow> Inr (onehot_embedding @ [0]))
          else Inr ([l] @ [0]))"

text \<open>
  The loop \<open>for i in range(len(S_path) - 1)\<close> of \<open>encode_discontinuous_path\<close>: it appends
  the point of \<open>S_path[i]\<close> and, when \<open>S_path[i + 1]\<close> is not in
  \<open>neighbor_links_O.get(S_path[i], [])\<close>, the point of \<open>'mos'\<close>.  Each entry is the result
  of one call of \<open>construct_point_info\<close>, in call order.
\<close>

fun encode_observed :: "data_generator \<Rightarrow> network \<Rightarrow> int list \<Rightarrow> (py_error + int list) list" where
  "encode_observed dg nw (a # b # rest) =
     construct_point_info dg nw (Link a) #
     (if b \<notin> set (neighbors nw a) then [construct_point_info dg nw (Token mos)] else []) @
     encode_observed dg nw (b # rest)"
| "encode_observed dg nw [a] = []"
| "encode_observed dg nw [] = []"

text \<open>\<open>while len(path_src) < self.max_len: path_src.append(point_info)\<close>\<close>

function pad_loop :: "nat \<Rightarrow> 'a \<Rightarrow> 'a list \<Rightarrow> 'a list" where
  "pad_loop n p path_src = (if length path_src < n then pad_loop n p (path_src @ [p]) else path_src)"
  by pat_completeness auto
termination
  by (relation "measure (\<lambda>(n, p, path_src). n - length path_src)") auto

declare pad_loop.simps [simp del]

text \<open>The first exception raised by a sequence of calls, or all their results.\<close>

fun collect :: "('e + 'a) list \<Rightarrow> 'e + 'a list" where
  "collect [] = Inr []"
| "collect (r # rs) =
     (case r of
        Inl e \<Rightarrow> Inl e
      | Inr x \<Rightarrow> (case collect rs of Inl e \<Rightarrow> Inl e | Inr xs \<Rightarrow> Inr (x # xs)))"

text \<open>
  \<open>encode_discontinuous_path(network, S_dict, path_i)\<close>, with
  \<open>S_path = S_dict['paths'][path_i]\<close> as the argument.  \<open>S_path[-1]\<close> raises IndexError on
  the empty path.  The result is the list of rows of the returned array.
\<close>

definition encode_discontinuous_path ::
  "data_generator \<Rightarrow> network \<Rightarrow> int list \<Rightarrow> py_error + int list list" where
  "encode_discontinuous_path dg nw S_path =
     collect
       (pad_loop (dg_max_len dg) (construct_point_info dg nw (Token pos))
          ([construct_point_info dg nw (Token bos)] @
           encode_observed dg nw S_path @
           [if S_path = [] then Inl IndexError
            else construct_point_info dg nw (Link (last S_path))] @
           [construct_point_info dg nw (Token eos)]))"

subsection \<open>routesformer.py: RoutesFormer\<close>

text \<open>
  The fields of \<open>method_config\<close> that \<open>__init__\<close> reads; the record is extensible, so a
  configuration object may carry any further attributes.
\<close>

record method_config =
  cfg_path_generation_method :: string
  cfg_graph_constraint :: bool
  cfg_discontinuous_path_attention :: string
  cfg_allow_decoupled_trying :: bool

text \<open>
  \<open>model_predict src tgt\<close> stands for \<open>self.model.predict(src, tgt)[-1, 0, :]\<close>, the
  external predictor's scores for the next token.  Scores are real numbers.
\<close>

record routesformer =
  max_len :: nat
  token_indexs :: "token \<Rightarrow> int"
  path_generation_method :: string
  graph_constraint :: bool
  discontinuous_path_attention :: string
  allow_decoupled_trying :: bool
  use_shortest_path :: bool
  data_generator :: data_generator
  model_predict :: "int list list \<Rightarrow> int list \<Rightarrow> real list"

text \<open>
  \<open>RoutesFormer.__init__\<close>; \<open>transformer\<close> stands for the predictor of the
  \<open>RoutesFormerTransformer\<close> that the constructor builds.
\<close>

definition RoutesFormer_init ::
  "(int list list \<Rightarrow> int list \<Rightarrow> real list) \<Rightarrow> network \<Rightarrow> experiment_config \<Rightarrow>
   'a method_config_scheme \<Rightarrow> routesformer" where
  "RoutesFormer_init transformer nw experiment_config method_config =
     \<lparr> max_len = cfg_max_len experiment_config,
       token_indexs = make_token_indexs nw,
       path_generation_method = cfg_path_generation_method method_config,
       graph_constraint = cfg_graph_constraint method_config,
       discontinuous_path_attention = cfg_discontinuous_path_attention method_config,
       allow_decoupled_trying = cfg_allow_decoupled_trying method_config,
       use_shortest_path = False,
       data_generator = DataGenerator_init nw experiment_config,
       model_predict = transformer \<rparr>"

text \<open>
  \<open>predict_val[j]\<close> on a one-dimensional tensor: a negative index counts from the end,
  an index out of range raises IndexError.  \<open>tensor_gather\<close> is
  \<open>predict_val[possible_neighbor_links]\<close>.
\<close>

definition tensor_index :: "real list \<Rightarrow> int \<Rightarrow> py_error + real" where
  "tensor_index v j =
     (if 0 \<le> j \<and> j < int (length v) then Inr (v ! nat j)
      else if - int (length v) \<le> j \<and> j < 0 then Inr (v ! nat (int (length v) + j))
      else Inl IndexError)"

definition tensor_gather :: "real list \<Rightarrow> int list \<Rightarrow> py_error + real list" where
  "tensor_gather v js = collect (map (tensor_index v) js)"

text \<open>\<open>torch.max\<close> and \<open>torch.argmax\<close> (the first index of the maximum) of a non-empty tensor.\<close>

definition torch_max :: "real list \<Rightarrow> real" where
  "torch_max ps = fold max (tl ps) (hd ps)"

definition torch_argmax :: "real list \<Rightarrow> nat" where
  "torch_argmax ps = length (takeWhile (\<lambda>x. x \<noteq> torch_max ps) ps)"

text \<open>
  Lines 388-393 and 400-405 of \<open>_predict_path_argmax\<close>: the choice among the downstream
  links by the predictor's scores.  \<open>None\<close> is \<open>break\<close>.
\<close>

definition choose_by_model :: "real list \<Rightarrow> int list \<Rightarrow> py_error + int option" where
  "choose_by_model predict_val possible_neighbor_links =
     (if length possible_neighbor_links \<le> 0 then Inr None
      else case tensor_gather predict_val possible_neighbor_links of
             Inl e \<Rightarrow> Inl e
           | Inr link_probabilities \<Rightarrow>
               if torch_max link_probabilities \<le> 0 then Inr None
               else Inr (Some (possible_neighbor_links ! torch_argmax link_probabilities)))"

text \<open>
  One iteration of the generation loop, up to the choice of \<open>possible_neighbor_link\<close>:
  the result is \<open>None\<close> for \<open>break\<close>, or the chosen token with the new value of
  \<open>s_path_idx\<close>.  \<open>tgt\<close> is the generated sequence, never empty.
\<close>

definition decode_step ::
  "routesformer \<Rightarrow> network \<Rightarrow> int list \<Rightarrow> int list list \<Rightarrow> int list \<Rightarrow> nat \<Rightarrow>
   py_error + (int \<times> nat) option" where
  "decode_step rf nw S_path src tgt s_path_idx =
     (let predict_val = model_predict rf src tgt in
      if last tgt = token_indexs rf bos
      then (if S_path = [] then Inl IndexError else Inr (Some (S_path ! 0, 1)))
      else
        let current_link = last tgt;
            possible_neighbor_links = neighbors nw current_link;
            all_obs_included = is_path_subsequence_of_path S_path tgt
        in
          if s_path_idx < length S_path \<and> \<not> all_obs_included
          then
            let next_obs_link = S_path ! s_path_idx in
            if next_obs_link \<in> set possible_neighbor_links
            then Inr (Some (next_obs_link, s_path_idx + 1))
            else (case choose_by_model predict_val possible_neighbor_links of
                    Inl e \<Rightarrow> Inl e
                  | Inr None \<Rightarrow> Inr None
                  | Inr (Some link) \<Rightarrow> Inr (Some (link, s_path_idx)))
          else if all_obs_included
          then Inr (Some (token_indexs rf eos, s_path_idx))
          else (case choose_by_model predict_val possible_neighbor_links of
                  Inl e \<Rightarrow> Inl e
                | Inr None \<Rightarrow> Inr None
                | Inr (Some link) \<Rightarrow> Inr (Some (link, s_path_idx))))"

text \<open>
  \<open>for current_step in range(self.max_len)\<close>: the first argument is the number of
  iterations left.  The loop ends by \<open>break\<close> (from the step, or on the end token) or
  when the iterations are used up; its value is the final \<open>tgt\<close>.
\<close>

fun decode_loop ::
  "routesformer \<Rightarrow> network \<Rightarrow> int list \<Rightarrow> int list list \<Rightarrow> nat \<Rightarrow> int list \<Rightarrow> nat \<Rightarrow>
   py_error + int list" where
  "decode_loop rf nw S_path src 0 tgt s_path_idx = Inr tgt"
| "decode_loop rf nw S_path src (Suc n) tgt s_path_idx =
     (case decode_step rf nw S_path src tgt s_path_idx of
        Inl e \<Rightarrow> Inl e
      | Inr None \<Rightarrow> Inr tgt
      | Inr (Some (possible_neighbor_link, s_path_idx')) \<Rightarrow>
          if possible_neighbor_link = token_indexs rf eos then Inr tgt
          else decode_loop rf nw S_path src n (tgt @ [possible_neighbor_link]) s_path_idx')"

text \<open>
  The shortest-path fallback.  \<open>find_link\<close> is the inner loop over
  \<open>link_nodes_dict.items()\<close> with its \<open>break\<close> at the first match; \<open>node_path_links\<close>
  is the loop over consecutive nodes of the shortest node path.
\<close>

fun find_link :: "(int \<times> int \<times> int) list \<Rightarrow> int \<Rightarrow> int \<Rightarrow> int list" where
  "find_link [] from_node to_node = []"
| "find_link ((link, n1, n2) # items) from_node to_node =
     (if n1 = from_node \<and> n2 = to_node then [link] else find_link items from_node to_node)"

fun node_path_links :: "(int \<times> int \<times> int) list \<Rightarrow> int list \<Rightarrow> int list" where
  "node_path_links items (from_node # to_node # nodes) =
     find_link items from_node to_node @ node_path_links items (to_node # nodes)"
| "node_path_links items [n] = []"
| "node_path_links items [] = []"

text \<open>
  The iterations \<open>i \<ge> 1\<close> of \<open>for i in range(len(S_path))\<close>, with \<open>prev_link = S_path[i-1]\<close>
  as an argument.  A missing key of \<open>link_nodes_dict\<close> raises KeyError; a failing
  shortest-path search is passed over by the inner \<open>except\<close>.
\<close>

fun stitch :: "network \<Rightarrow> int \<Rightarrow> int list \<Rightarrow> py_error + int list" where
  "stitch nw prev_link [] = Inr []"
| "stitch nw prev_link (curr_link # rest) =
     (case map_of (link_nodes_dict nw) prev_link of
        None \<Rightarrow> Inl KeyError
      | Some (prev_start_node, prev_end_node) \<Rightarrow>
          (case map_of (link_nodes_dict nw) curr_link of
             None \<Rightarrow> Inl KeyError
           | Some (curr_start_node, curr_end_node) \<Rightarrow>
               (case stitch nw curr_link rest of
                  Inl e \<Rightarrow> Inl e
                | Inr complete_rest \<Rightarrow>
                    Inr ((if prev_end_node \<noteq> curr_start_node
                          then (case shortest_path nw prev_end_node curr_start_node of
                                  None \<Rightarrow> []
                                | Some shortest_path_nodes \<Rightarrow>
                                    node_path_links (link_nodes_dict nw) shortest_path_nodes)
                          else []) @ [curr_link] @ complete_rest))))"

definition shortest_path_complete :: "network \<Rightarrow> int list \<Rightarrow> py_error + int list" where
  "shortest_path_complete nw S_path =
     (case S_path of
        [] \<Rightarrow> Inr []
      | first_link # rest \<Rightarrow>
          (case stitch nw first_link rest of
             Inl e \<Rightarrow> Inl e
           | Inr complete_rest \<Rightarrow> Inr (first_link # complete_rest)))"

text \<open>
  \<open>_predict_path_argmax\<close>.  The returned dict \<open>path_probability\<close> is an association list
  from path tuples to probabilities.  Every exception inside the fallback is caught by
  its \<open>except Exception\<close>, which leaves the dict empty.
\<close>

definition predict_path_argmax ::
  "routesformer \<Rightarrow> network \<Rightarrow> int list \<Rightarrow> py_error + (int list \<times> real) list" where
  "predict_path_argmax rf nw S_path =
     (case encode_discontinuous_path (data_generator rf) nw S_path of
        Inl e \<Rightarrow> Inl e
      | Inr src \<Rightarrow>
          (case decode_loop rf nw S_path src (max_len rf) [token_indexs rf bos] 0 of
             Inl e \<Rightarrow> Inl e
           | Inr tgt_final \<Rightarrow>
               let tgt = (if token_indexs rf bos \<in> set tgt_final
                          then remove1 (token_indexs rf bos) tgt_final else tgt_final)
               in
                 if is_path_subsequence_of_path S_path tgt then Inr [(tgt, 1)]
                 else if use_shortest_path rf
                 then (case shortest_path_complete nw S_path of
                         Inl e \<Rightarrow> Inr []
                       | Inr complete_path \<Rightarrow>
                           if complete_path \<noteq> [] \<and> is_path_subsequence_of_path S_path complete_path
                           then Inr [(complete_path, 1)] else Inr [])
                 else Inr []))"

definition predict_path ::
  "routesformer \<Rightarrow> network \<Rightarrow> int list \<Rightarrow> py_error + (int list \<times> real) list" where
  "predict_path rf nw S_path =
     (if path_generation_method rf = ''argmax'' then predict_path_argmax rf nw S_path
      else Inr [])"

subsection \<open>data_loader.py\<close>

text \<open>
  \<open>mask_ratio\<close> is a float or the string \<open>'OD'\<close>.  \<open>int(x)\<close> truncates towards zero.
\<close>

datatype mask_ratio = OD | Ratio real

definition py_int :: "real \<Rightarrow> int" where
  "py_int x = (if 0 \<le> x then \<lfloor>x\<rfloor> else \<lceil>x\<rceil>)"

text \<open>
  \<open>prepare_discontinuous_path(path, mask_ratio)\<close>; \<open>permutation\<close> is the value drawn by
  \<open>np.random.permutation(len(path))\<close>.  \<open>path[0]\<close> raises IndexError on the empty path.
  The product \<open>(1 - mask_ratio) * len(path)\<close> is taken over the reals.
\<close>

definition prepare_discontinuous_path ::
  "int list \<Rightarrow> mask_ratio \<Rightarrow> nat list \<Rightarrow> py_error + int list" where
  "prepare_discontinuous_path path mask_ratio permutation =
     (case mask_ratio of
        OD \<Rightarrow> if path = [] then Inl IndexError else Inr [path ! 0, last path]
      | Ratio r \<Rightarrow>
          let link_num = max 0 (py_int ((1 - r) * real (length path)) - 2);
              per = take (nat link_num) permutation
          in Inr (map (\<lambda>i. path ! i)
                    (filter (\<lambda>i. (i = 0 \<or> i = length path - 1) \<or> i \<in> set per)
                       [0..<length path])))"

text \<open>
  The body of the loop over \<open>path_idxs\<close> in \<open>prepare_sparse_observations\<close>: the sparse
  path of one ground-truth path.
\<close>

definition sparse_observation :: "int list \<Rightarrow> int list \<Rightarrow> int list" where
  "sparse_observation path avi_ids =
     map (\<lambda>i. path ! i)
       (filter (\<lambda>i. i = 0 \<or> i = length path - 1 \<or> path ! i \<in> set avi_ids)
          [0..<length path])"

text \<open>
  \<open>prepare_sparse_observations(gt_dict, avi_ids, path_idxs)\<close> with \<open>gt_dict['paths']\<close> as
  a map and the indices given; a missing index raises KeyError.  The result is the dict
  \<open>sparse_paths\<close>.
\<close>

fun sparse_observations_loop ::
  "(nat \<Rightarrow> int list option) \<Rightarrow> int list \<Rightarrow> (nat \<Rightarrow> int list option) \<Rightarrow> nat list \<Rightarrow>
   py_error + (nat \<Rightarrow> int list option)" where
  "sparse_observations_loop paths avi_ids sparse_paths [] = Inr sparse_paths"
| "sparse_observations_loop paths avi_ids sparse_paths (path_i # path_idxs) =
     (case paths path_i of
        None \<Rightarrow> Inl KeyError
      | Some path \<Rightarrow>
          sparse_observations_loop paths avi_ids
            (sparse_paths(path_i \<mapsto> sparse_observation path avi_ids)) path_idxs)"

definition prepare_sparse_observations ::
  "(nat \<Rightarrow> int list option) \<Rightarrow> int list \<Rightarrow> nat list \<Rightarrow>
   py_error + (nat \<Rightarrow> int list option)" where
  "prepare_sparse_observations paths avi_ids path_idxs =
     sparse_observations_loop paths avi_ids Map.empty path_idxs"

subsection \<open>metrics.py: edit distance, BLEU and TLLA\<close>

text \<open>
  \<open>levenshtein_distance\<close>.  The matrix starts as \<open>matrix[i][j] = i + j\<close> and is filled row
  by row.  \<open>levenshtein_row\<close> is the inner loop over \<open>j\<close> for one \<open>i\<close>: its arguments are
  \<open>path1[i-1]\<close>, the rest of \<open>path2\<close>, the previous row from column \<open>j-1\<close> on, and
  \<open>matrix[i][j-1]\<close>.  \<open>levenshtein_rows\<close> is the outer loop, from the row \<open>i\<close> on.
\<close>

fun levenshtein_row :: "'a \<Rightarrow> 'a list \<Rightarrow> nat list \<Rightarrow> nat \<Rightarrow> nat list" where
  "levenshtein_row x [] previous left = []"
| "levenshtein_row x (y # ys) previous left =
     (let d = (if x = y then 0 else 1);
          cell = min (min (previous ! 1 + 1) (left + 1)) (previous ! 0 + d)
      in cell # levenshtein_row x ys (tl previous) cell)"

fun levenshtein_rows :: "'a list \<Rightarrow> 'a list \<Rightarrow> nat \<Rightarrow> nat list \<Rightarrow> nat list" where
  "levenshtein_rows [] path2 i previous = previous"
| "levenshtein_rows (x # xs) path2 i previous =
     levenshtein_rows xs path2 (i + 1) ((i + 1) # levenshtein_row x path2 previous (i + 1))"

definition levenshtein_distance :: "'a list \<Rightarrow> 'a list \<Rightarrow> nat" where
  "levenshtein_distance path1 path2 =
     last (levenshtein_rows path1 path2 0 [0..<length path2 + 1])"

text \<open>
  A Python float as the metric functions see it: a number or NaN (the aggregators test
  \<open>np.isnan\<close>).  Numbers are real; infinities are left out.  Arithmetic with NaN gives NaN.
\<close>

datatype pyfloat = Num real | NaN

fun isnan :: "pyfloat \<Rightarrow> bool" where
  "isnan NaN = True"
| "isnan (Num x) = False"

fun float_add :: "pyfloat \<Rightarrow> pyfloat \<Rightarrow> pyfloat" where
  "float_add (Num x) (Num y) = Num (x + y)"
| "float_add a b = NaN"

fun float_mul :: "pyfloat \<Rightarrow> pyfloat \<Rightarrow> pyfloat" where
  "float_mul (Num x) (Num y) = Num (x * y)"
| "float_mul a b = NaN"

text \<open>
  Python's slice \<open>xs[a:b]\<close>: a negative bound counts from the end, and bounds are clipped
  to the list.  \<open>py_nth xs i\<close> is \<open>xs[i]\<close>.
\<close>

definition py_bound :: "nat \<Rightarrow> int \<Rightarrow> nat" where
  "py_bound n i = (if i < 0 then nat (max 0 (int n + i)) else min (nat i) n)"

definition py_slice :: "'a list \<Rightarrow> int \<Rightarrow> int \<Rightarrow> 'a list" where
  "py_slice xs a b =
     take (py_bound (length xs) b - py_bound (length xs) a) (drop (py_bound (length xs) a) xs)"

definition py_nth :: "'a list \<Rightarrow> int \<Rightarrow> py_error + 'a" where
  "py_nth xs i =
     (if 0 \<le> i \<and> i < int (length xs) then Inr (xs ! nat i)
      else if - int (length xs) \<le> i \<and> i < 0 then Inr (xs ! nat (int (length xs) + i))
      else Inl IndexError)"

text \<open>
  The first lines of every per-path metric: \<open>gt_path = tuple(gt_dict['paths'][path_i])\<close>,
  clipped to \<open>gt_path[idx[0] : idx[-1] + 1]\<close> with \<open>idx = s_dict['S_GT_link_idxs'][path_i]\<close>
  when \<open>is_global_path\<close> is false.  The two dicts are maps from path indices.
\<close>

definition ground_truth_path ::
  "(nat \<Rightarrow> int list option) \<Rightarrow> (nat \<Rightarrow> int list option) \<Rightarrow> nat \<Rightarrow> bool \<Rightarrow>
   py_error + int list" where
  "ground_truth_path gt_paths s_gt_link_idxs path_i is_global_path =
     (case gt_paths path_i of
        None \<Rightarrow> Inl KeyError
      | Some gt_path \<Rightarrow>
          if \<not> is_global_path
          then (case s_gt_link_idxs path_i of
                  None \<Rightarrow> Inl KeyError
                | Some s_gt_link_idx \<Rightarrow>
                    (case py_nth s_gt_link_idx 0 of
                       Inl e \<Rightarrow> Inl e
                     | Inr first_idx \<Rightarrow>
                         (case py_nth s_gt_link_idx (- 1) of
                            Inl e \<Rightarrow> Inl e
                          | Inr last_idx \<Rightarrow> Inr (py_slice gt_path first_idx (last_idx + 1)))))
          else Inr gt_path)"

text \<open>
  \<open>calculate_path_ed\<close>.  The loop over \<open>path_probabilities.items()\<close> is
  \<open>edit_distance_loop\<close>; \<open>ed / len(gt_path)\<close> divides two Python integers and raises
  ZeroDivisionError when the ground-truth path is empty.
\<close>

fun edit_distance_loop ::
  "int list \<Rightarrow> pyfloat \<Rightarrow> (int list \<times> pyfloat) list \<Rightarrow> py_error + pyfloat" where
  "edit_distance_loop gt_path edit_distance [] = Inr edit_distance"
| "edit_distance_loop gt_path edit_distance ((pred_path, prob) # items) =
     (if length gt_path = 0 then Inl ZeroDivisionError
      else
        let ed = levenshtein_distance gt_path pred_path;
            normalized_ed = min (real ed / real (length gt_path)) 1
        in edit_distance_loop gt_path
             (float_add edit_distance (float_mul prob (Num normalized_ed))) items)"

definition calculate_path_ed ::
  "(nat \<Rightarrow> int list option) \<Rightarrow> (nat \<Rightarrow> int list option) \<Rightarrow> (int list \<times> pyfloat) list \<Rightarrow>
   nat \<Rightarrow> bool \<Rightarrow> py_error + pyfloat" where
  "calculate_path_ed gt_paths s_gt_link_idxs path_probabilities path_i is_global_path =
     (if length path_probabilities = 0 then Inr (Num 1)
      else case ground_truth_path gt_paths s_gt_link_idxs path_i is_global_path of
             Inl e \<Rightarrow> Inl e
           | Inr gt_path \<Rightarrow> edit_distance_loop gt_path (Num 0) path_probabilities)"

text \<open>
  The loop of an aggregator over \<open>all_path_probabilities.items()\<close>: \<open>metric\<close> is the
  per-path function, \<open>worst\<close> the value appended in place of a NaN, \<open>idxs\<close> is \<open>None\<close> or
  a list of indices.  An exception of the per-path function is not caught.
\<close>

fun aggregate_loop ::
  "((int list \<times> pyfloat) list \<Rightarrow> nat \<Rightarrow> py_error + pyfloat) \<Rightarrow> real \<Rightarrow> nat list option \<Rightarrow>
   (nat \<times> (int list \<times> pyfloat) list) list \<Rightarrow> py_error + real list" where
  "aggregate_loop metric worst idxs [] = Inr []"
| "aggregate_loop metric worst idxs ((path_i, path_probs) # items) =
     (if (case idxs of None \<Rightarrow> True | Some selected \<Rightarrow> path_i \<in> set selected)
      then (case metric path_probs path_i of
              Inl e \<Rightarrow> Inl e
            | Inr v \<Rightarrow>
                (case aggregate_loop metric worst idxs items of
                   Inl e \<Rightarrow> Inl e
                 | Inr values \<Rightarrow>
                     Inr ((case v of Num x \<Rightarrow> x | NaN \<Rightarrow> worst) # values)))
      else aggregate_loop metric worst idxs items)"

text \<open>\<open>np.mean(values) if values else worst\<close>\<close>

definition mean_or :: "real \<Rightarrow> real list \<Rightarrow> real" where
  "mean_or worst values = (if values = [] then worst else sum_list values / real (length values))"

definition calculate_paths_ed ::
  "(nat \<Rightarrow> int list option) \<Rightarrow> (nat \<Rightarrow> int list option) \<Rightarrow>
   (nat \<times> (int list \<times> pyfloat) list) list \<Rightarrow> bool \<Rightarrow> nat list option \<Rightarrow> py_error + real" where
  "calculate_paths_ed gt_paths s_gt_link_idxs all_path_probabilities is_global_path idxs =
     (case aggregate_loop
             (\<lambda>path_probs path_i.
                calculate_path_ed gt_paths s_gt_link_idxs path_probs path_i is_global_path)
             1 idxs all_path_probabilities of
        Inl e \<Rightarrow> Inl e
      | Inr edit_distances \<Rightarrow> Inr (mean_or 1 edit_distances))"





text \<open>
  \<open>calculate_path_tlla\<close>.  \<open>link_length\<close> is
  \<open>network.edges[node1, node2]['LENGTH']\<close> for the nodes of a link, a Python float; a
  missing key raises KeyError.  \<open>total_length\<close> sums the lengths of a list of links.
  \<open>tuple(set(pred_path))\<close> holds the distinct links of the prediction.  The division
  \<open>matched_length / gt_length\<close> raises ZeroDivisionError when \<open>gt_length\<close> is 0.
\<close>

definition link_length :: "network \<Rightarrow> int \<Rightarrow> py_error + real" where
  "link_length nw link =
     (case map_of (link_nodes_dict nw) link of
        None \<Rightarrow> Inl KeyError
      | Some (node1, node2) \<Rightarrow>
          (case edge_length nw (node1, node2) of None \<Rightarrow> Inl KeyError | Some l \<Rightarrow> Inr l))"

fun total_length :: "network \<Rightarrow> real \<Rightarrow> int list \<Rightarrow> py_error + real" where
  "total_length nw acc [] = Inr acc"
| "total_length nw acc (link # links) =
     (case link_length nw link of
        Inl e \<Rightarrow> Inl e
      | Inr l \<Rightarrow> total_length nw (acc + l) links)"

fun tlla_loop ::
  "network \<Rightarrow> int list \<Rightarrow> real \<Rightarrow> pyfloat \<Rightarrow> (int list \<times> pyfloat) list \<Rightarrow> py_error + pyfloat" where
  "tlla_loop nw gt_path gt_length tlla [] = Inr tlla"
| "tlla_loop nw gt_path gt_length tlla ((pred_path, prob) # items) =
     (case total_length nw 0 (filter (\<lambda>link. link \<in> set gt_path) (remdups pred_path)) of
        Inl e \<Rightarrow> Inl e
      | Inr matched_length \<Rightarrow>
          if gt_length = 0 then Inl ZeroDivisionError
          else tlla_loop nw gt_path gt_length
                 (float_add tlla (float_mul prob (Num (matched_length / gt_length)))) items)"

definition calculate_path_tlla ::
  "network \<Rightarrow> (nat \<Rightarrow> int list option) \<Rightarrow> (nat \<Rightarrow> int list option) \<Rightarrow>
   (int list \<times> pyfloat) list \<Rightarrow> nat \<Rightarrow> bool \<Rightarrow> py_error + pyfloat" where
  "calculate_path_tlla nw gt_paths s_gt_link_idxs path_probabilities path_i is_global_path =
     (if length path_probabilities = 0 then Inr (Num 0)
      else case ground_truth_path gt_paths s_gt_link_idxs path_i is_global_path of
             Inl e \<Rightarrow> Inl e
           | Inr gt_path \<Rightarrow>
               (case total_length nw 0 gt_path of
                  Inl e \<Rightarrow> Inl e
                | Inr gt_length \<Rightarrow> tlla_loop nw gt_path gt_length (Num 0) path_probabilities))"

definition calculate_paths_tlla ::
  "network \<Rightarrow> (nat \<Rightarrow> int list option) \<Rightarrow> (nat \<Rightarrow> int list option) \<Rightarrow>
   (nat \<times> (int list \<times> pyfloat) list) list \<Rightarrow> bool \<Rightarrow> nat list option \<Rightarrow> py_error + real" where
  "calculate_paths_tlla nw gt_paths s_gt_link_idxs all_path_probabilities is_global_path idxs =
     (case aggregate_loop
             (\<lambda>path_probs path_i.
                calculate_path_tlla nw gt_paths s_gt_link_idxs path_probs path_i is_global_path)
             0 idxs all_path_probabilities of
        Inl e \<Rightarrow> Inl e
      | Inr tlla_values \<Rightarrow> Inr (mean_or 0 tlla_values))"

subsection \<open>The encoding format and the decoder's states, for the statements below\<close>

text \<open>
  The content of an encoded sequence in the words of the specification: the begin token,
  then every observed segment but the last, each followed by one mask token exactly when
  the next observed segment is not among its downstream links, then the last observed
  segment and the end token.
\<close>

definition marked_observations :: "network \<Rightarrow> int list \<Rightarrow> point list" where
  "marked_observations nw S_path =
     concat (map (\<lambda>i. Link (S_path ! i) #
                    (if S_path ! (i + 1) \<in> set (neighbors nw (S_path ! i)) then [] else [Token mos]))
               [0..<length S_path - 1])"

definition encoded_content :: "network \<Rightarrow> int list \<Rightarrow> point list" where
  "encoded_content nw S_path =
     [Token bos] @ marked_observations nw S_path @ [Link (last S_path)] @ [Token eos]"

text \<open>
  The state \<open>(tgt, s_path_idx)\<close> of the generation loop at the start of iteration \<open>k\<close>;
  \<open>None\<close> when the loop has ended before.
\<close>

fun decode_state ::
  "routesformer \<Rightarrow> network \<Rightarrow> int list \<Rightarrow> int list list \<Rightarrow> nat \<Rightarrow> (int list \<times> nat) option" where
  "decode_state rf nw S_path src 0 = Some ([token_indexs rf bos], 0)"
| "decode_state rf nw S_path src (Suc k) =
     (case decode_state rf nw S_path src k of
        None \<Rightarrow> None
      | Some (tgt, s_path_idx) \<Rightarrow>
          (case decode_step rf nw S_path src tgt s_path_idx of
             Inr (Some (possible_neighbor_link, s_path_idx')) \<Rightarrow>
               if possible_neighbor_link = token_indexs rf eos then None
               else Some (tgt @ [possible_neighbor_link], s_path_idx')
           | _ \<Rightarrow> None))"

text \<open>Segment ids are the indices below the number of links; the tokens come after them.\<close>

definition is_segment_id :: "network \<Rightarrow> int \<Rightarrow> bool" where
  "is_segment_id nw l = (0 \<le> l \<and> l < int (get_num_links nw))"

subsection \<open>Quantities for the statements about the aggregators\<close>



subsection \<open>config.py and the networks of the scenarios\<close>

text \<open>\<open>ExperimentConfig\<close> and \<open>MethodConfig\<close> of \<open>config.py\<close>.\<close>

definition default_experiment_config :: experiment_config where
  "default_experiment_config =
     \<lparr> cfg_max_len = 30, cfg_attributes_dict = [''onehot_embedding''] \<rparr>"

definition default_method_config :: method_config where
  "default_method_config =
     \<lparr> cfg_path_generation_method = ''argmax'',
       cfg_graph_constraint = True,
       cfg_discontinuous_path_attention = ''global'',
       cfg_allow_decoupled_trying = False \<rparr>"

text \<open>
  The 4-node cycle with segments \<open>0:0\<rightarrow>1\<close>, \<open>1:1\<rightarrow>2\<close>, \<open>2:2\<rightarrow>3\<close>, \<open>3:3\<rightarrow>0\<close>, every
  segment of length 1.
\<close>

definition cycle_network :: network where
  "cycle_network =
     \<lparr> num_links = 4,
       neighbor_links_O = [0 \<mapsto> [1], 1 \<mapsto> [2], 2 \<mapsto> [3], 3 \<mapsto> [0]],
       link_nodes_dict = [(0, 0, 1), (1, 1, 2), (2, 2, 3), (3, 3, 0)],
       shortest_path = (\<lambda>a b. if a \<in> {0, 1, 2, 3} \<and> b \<in> {0, 1, 2, 3}
                               then Some (map (\<lambda>i. (a + int i) mod 4) [0..<nat ((b - a) mod 4) + 1])
                               else None),
       edge_length = (\<lambda>e. if e \<in> {(0, 1), (1, 2), (2, 3), (3, 0)} then Some 1 else None) \<rparr>"

text \<open>The same network with the downstream links of segment 2 lost.\<close>

definition broken_cycle_network :: network where
  "broken_cycle_network =
     cycle_network\<lparr>neighbor_links_O := (neighbor_links_O cycle_network)(2 \<mapsto> [])\<rparr>"

text \<open>A network of one segment \<open>0:0\<rightarrow>1\<close> without downstream links.\<close>

definition single_link_network :: network where
  "single_link_network =
     \<lparr> num_links = 1,
       neighbor_links_O = [0 \<mapsto> []],
       link_nodes_dict = [(0, 0, 1)],
       shortest_path = (\<lambda>a b. None),
       edge_length = (\<lambda>e. if e = (0, 1) then Some 1 else None) \<rparr>"

text \<open>A predictor that gives every token the same score.\<close>

definition uniform_predictor :: "nat \<Rightarrow> real \<Rightarrow> int list list \<Rightarrow> int list \<Rightarrow> real list" where
  "uniform_predictor vocabulary c src tgt = replicate vocabulary c"

text \<open>An experiment configuration like that of \<open>config.py\<close>, with another \<open>max_len\<close>.\<close>

definition small_experiment_config :: "nat \<Rightarrow> experiment_config" where
  "small_experiment_config n = \<lparr> cfg_max_len = n, cfg_attributes_dict = [''onehot_embedding''] \<rparr>"

section \<open>Properties\<close>

subsection \<open>Subsequence validation\<close>

lemma subsequence_scan_subseq:
  "sub_idx \<le> length subsequence \<Longrightarrow>
   subsequence_scan subsequence sub_idx sequence = subseq (drop sub_idx subsequence) sequence"
proof (induction sequence arbitrary: sub_idx)
  case Nil
  then show ?case by (cases "drop sub_idx subsequence") auto
next
  case (Cons item rest)
  show ?case
  proof (cases "sub_idx < length subsequence")
    case True
    then have d: "drop sub_idx subsequence = subsequence ! sub_idx # drop (Suc sub_idx) subsequence"
      by (simp add: Cons_nth_drop_Suc)
    from True have le: "Suc sub_idx \<le> length subsequence" by simp
    show ?thesis
      using True Cons.IH [OF le] Cons.IH [OF Cons.prems] d by auto
  next
    case False
    with Cons.prems have "sub_idx = length subsequence" by simp
    then show ?thesis using Cons.IH [of sub_idx] by simp
  qed
qed

lemma is_path_subsequence_iff_subseq:
  "is_path_subsequence_of_path subsequence sequence = subseq subsequence sequence"
  by (simp add: is_path_subsequence_of_path_def subsequence_scan_subseq)

text \<open>
  Claim C7.  \<open>is_path_subsequence_of_path needle haystack\<close> is true exactly when the
  elements of \<open>needle\<close> occur in \<open>haystack\<close> in the same relative order, not necessarily
  contiguously (the library relation \<open>subseq\<close>).  In particular it is true for \<open>(s, s)\<close>,
  true for the empty needle against any haystack, and false for \<open>(s, s[:-1])\<close> when \<open>s\<close>
  is not empty.
\<close>

theorem is_path_subsequence_of_path_correct:
  "is_path_subsequence_of_path needle haystack = subseq needle haystack
   \<and> is_path_subsequence_of_path s s
   \<and> is_path_subsequence_of_path [] haystack
   \<and> (s \<noteq> [] \<longrightarrow> \<not> is_path_subsequence_of_path s (butlast s))"
  by (simp add: is_path_subsequence_iff_subseq)

theorem is_path_subsequence_of_path_correct_witness:
  "is_path_subsequence_of_path [1, 3, 5 :: int] [1, 2, 3, 4, 5]
   \<and> \<not> is_path_subsequence_of_path [1, 4, 2 :: int] [1, 2, 3, 4, 5]
   \<and> [7, 8 :: int] \<noteq> [] \<and> \<not> is_path_subsequence_of_path [7, 8 :: int] (butlast [7, 8])"
  using is_path_subsequence_of_path_correct [of "[7, 8 :: int]" "[7, 8 :: int]" "[7, 8 :: int]"]
  by (simp add: is_path_subsequence_of_path_def)

subsection \<open>The encoder\<close>

lemma pad_loop_replicate: "pad_loop n p xs = xs @ replicate (n - length xs) p"
proof (induction n p xs rule: pad_loop.induct)
  case (1 n p path_src)
  show ?case
  proof (cases "length path_src < n")
    case True
    then have "n - length path_src = Suc (n - length (path_src @ [p]))" by simp
    then show ?thesis
      using True "1.IH" by (subst pad_loop.simps) (simp add: replicate_app_Cons_same)
  next
    case False
    then show ?thesis by (subst pad_loop.simps) simp
  qed
qed

lemma collect_map_Inr:
  "(\<And>t. t \<in> set ts \<Longrightarrow> \<exists>r. f t = Inr r) \<Longrightarrow>
   \<exists>rows. collect (map f ts) = Inr rows \<and> map Inr rows = map f ts"
proof (induction ts)
  case Nil
  then show ?case by simp
next
  case (Cons t ts)
  then obtain r where r: "f t = Inr r" by auto
  from Cons obtain rows where "collect (map f ts) = Inr rows" "map Inr rows = map f ts" by auto
  with r show ?case by simp
qed

lemma encode_observed_map:
  "encode_observed dg nw S_path =
   map (construct_point_info dg nw)
     (concat (map (\<lambda>i. Link (S_path ! i) #
                     (if S_path ! (i + 1) \<in> set (neighbors nw (S_path ! i)) then [] else [Token mos]))
                [0..<length S_path - 1]))"
proof (induction dg nw S_path rule: encode_observed.induct)
  case (1 dg nw a b rest)
  have "[0..<length (a # b # rest) - 1] = 0 # map Suc [0..<length (b # rest) - 1]"
    by (simp add: upt_conv_Cons map_Suc_upt del: upt_Suc)
  then show ?case using 1 by (simp add: comp_def del: upt_Suc)
qed simp_all

lemma encode_rows:
  assumes "S_path \<noteq> []"
  shows "encode_discontinuous_path dg nw S_path =
         collect (map (construct_point_info dg nw)
           (encoded_content nw S_path @
            replicate (dg_max_len dg - length (encoded_content nw S_path)) (Token pos)))"
  using assms
  by (simp add: encode_discontinuous_path_def pad_loop_replicate encode_observed_map
      encoded_content_def marked_observations_def)

lemma onehot_vector_in_range:
  "0 \<le> i \<Longrightarrow> i < int n \<Longrightarrow> \<exists>v. onehot_vector n i = Inr v"
  by (simp add: onehot_vector_def)

lemma construct_point_info_token:
  "is_onehot_embedding dg \<longrightarrow> dg_token_indexs dg = make_token_indexs nw \<Longrightarrow>
   \<exists>r. construct_point_info dg nw (Token t) = Inr r"
  by (cases t) (auto simp: construct_point_info_def make_token_indexs_def onehot_vector_def)

lemma construct_point_info_link:
  "is_onehot_embedding dg \<longrightarrow> 0 \<le> l \<and> l < int (get_num_links nw) \<Longrightarrow>
   \<exists>r. construct_point_info dg nw (Link l) = Inr r"
  by (auto simp: construct_point_info_def onehot_vector_def)

lemma set_marked_observations:
  "p \<in> set (marked_observations nw S_path) \<Longrightarrow> p = Token mos \<or> (\<exists>l \<in> set S_path. p = Link l)"
  by (auto simp: marked_observations_def split: if_splits)

lemma encode_succeeds:
  assumes ne: "S_path \<noteq> []"
    and oh: "is_onehot_embedding dg \<longrightarrow>
             dg_token_indexs dg = make_token_indexs nw \<and>
             (\<forall>l \<in> set S_path. 0 \<le> l \<and> l < int (get_num_links nw))"
  shows "\<exists>rows. encode_discontinuous_path dg nw S_path = Inr rows \<and>
           map Inr rows = map (construct_point_info dg nw)
             (encoded_content nw S_path @
              replicate (dg_max_len dg - length (encoded_content nw S_path)) (Token pos))"
proof -
  let ?ts = "encoded_content nw S_path @
             replicate (dg_max_len dg - length (encoded_content nw S_path)) (Token pos)"
  have "\<exists>r. construct_point_info dg nw t = Inr r" if "t \<in> set ?ts" for t
  proof (cases t)
    case (Token k)
    with oh show ?thesis using construct_point_info_token [of dg nw k] by simp
  next
    case (Link l)
    with that have "l \<in> set S_path"
      using ne set_marked_observations [of t nw S_path]
      by (auto simp: encoded_content_def)
    with oh Link show ?thesis using construct_point_info_link [of dg l nw] by simp
  qed
  then show ?thesis
    unfolding encode_rows [OF ne] by (rule collect_map_Inr)
qed

lemma marked_observations_without_marks:
  "filter (\<lambda>p. p \<noteq> Token mos) (marked_observations nw S_path) = map Link (butlast S_path)"
proof -
  have "filter (\<lambda>p. p \<noteq> Token mos) (marked_observations nw S_path)
        = map (\<lambda>i. Link (S_path ! i)) [0..<length S_path - 1]"
    unfolding marked_observations_def filter_concat
    by (induction "length S_path - 1") (simp_all add: comp_def)
  also have "\<dots> = map Link (map ((!) S_path) [0..<length S_path - 1])"
    by simp
  also have "map ((!) S_path) [0..<length S_path - 1] = take (length S_path - 1) S_path"
  proof -
    have "take (length S_path - 1) (map ((!) S_path) [0..<length S_path])
          = map ((!) S_path) [0..<length S_path - 1]"
      unfolding take_map by simp
    then show ?thesis by (simp add: map_nth)
  qed
  finally show ?thesis by (simp add: butlast_conv_take)
qed

text \<open>
  Claim C5.  For a non-empty sparse path whose encoded content (begin token, observed
  segments, markers, end token) has at most \<open>max_len\<close> entries,
  \<open>encode_discontinuous_path\<close> returns exactly \<open>max_len\<close> rows: the row of the begin
  token first, then the observed segments in order with exactly one mask token after each
  segment whose successor is not among its downstream links and none elsewhere, then the
  row of the end token, then rows of the pad token.  In the one-hot representation the
  segments must be segment ids of the network the generator was built for (otherwise the
  one-hot write raises IndexError).
\<close>

theorem encode_discontinuous_path_format:
  assumes ne: "S_path \<noteq> []"
    and oh: "is_onehot_embedding dg \<longrightarrow>
         dg_token_indexs dg = make_token_indexs nw \<and>
         (\<forall>l \<in> set S_path. 0 \<le> l \<and> l < int (get_num_links nw))"
    and fits: "length (encoded_content nw S_path) \<le> dg_max_len dg"
  shows "\<exists>rows. encode_discontinuous_path dg nw S_path = Inr rows \<and>
           length rows = dg_max_len dg \<and>
           map Inr rows = map (construct_point_info dg nw)
             ([Token bos] @ marked_observations nw S_path @ [Link (last S_path)] @ [Token eos] @
              replicate (dg_max_len dg - length (encoded_content nw S_path)) (Token pos)) \<and>
           filter (\<lambda>p. p \<noteq> Token mos) (marked_observations nw S_path @ [Link (last S_path)])
             = map Link S_path"
proof -
  from encode_succeeds [OF ne oh] obtain rows where
    rows: "encode_discontinuous_path dg nw S_path = Inr rows"
    and eq: "map Inr rows = map (construct_point_info dg nw)
             (encoded_content nw S_path @
              replicate (dg_max_len dg - length (encoded_content nw S_path)) (Token pos))"
    by blast
  from eq have "length (map Inr rows :: (py_error + int list) list) =
      length (encoded_content nw S_path @
              replicate (dg_max_len dg - length (encoded_content nw S_path)) (Token pos))"
    by simp
  with fits have len: "length rows = dg_max_len dg" by simp
  have "map Link (butlast S_path) @ [Link (last S_path)] = map Link (butlast S_path @ [last S_path])"
    by simp
  with ne have keep: "filter (\<lambda>p. p \<noteq> Token mos) (marked_observations nw S_path @ [Link (last S_path)])
             = map Link S_path"
    by (simp add: marked_observations_without_marks del: map_append)
  from rows len eq keep show ?thesis
    by (auto simp: encoded_content_def)
qed

theorem encode_discontinuous_path_format_witness:
  "[0, 3] \<noteq> [] \<and>
   length (encoded_content cycle_network [0, 3]) \<le> 7 \<and>
   encode_discontinuous_path
     (DataGenerator_init cycle_network \<lparr>cfg_max_len = 7, cfg_attributes_dict = [''onehot_embedding'']\<rparr>)
     cycle_network [0, 3]
   = Inr [[4, 0], [0, 0], [6, 0], [3, 0], [5, 0], [7, 0], [7, 0]]"
proof -
  have "encode_discontinuous_path
     (DataGenerator_init cycle_network \<lparr>cfg_max_len = 7, cfg_attributes_dict = [''onehot_embedding'']\<rparr>)
     cycle_network [0, 3]
   = Inr [[4, 0], [0, 0], [6, 0], [3, 0], [5, 0], [7, 0], [7, 0]]"
    by (simp add: encode_discontinuous_path_def pad_loop_replicate DataGenerator_init_def
        construct_point_info_def make_token_indexs_def get_num_links_def neighbors_def
        cycle_network_def numeral_2_eq_2)
  then show ?thesis
    using encode_discontinuous_path_format
      [of "[0, 3]"
        "DataGenerator_init cycle_network \<lparr>cfg_max_len = 7, cfg_attributes_dict = [''onehot_embedding'']\<rparr>"
        cycle_network]
    by (simp add: encoded_content_def marked_observations_def)
qed

subsection \<open>The decoder\<close>

text \<open>
  Claim C1.  Whenever \<open>predict_path\<close> returns (for any sparse path, network and
  predictor, with or without the fallback), the returned distribution is either empty or
  holds exactly one path, with probability 1, of which the sparse path is a subsequence
  in the sense of \<open>is_path_subsequence_of_path\<close>.
\<close>

theorem predict_path_single_hypothesis:
  assumes "predict_path rf nw S_path = Inr path_probability"
  shows "path_probability = [] \<or>
         (\<exists>path. path_probability = [(path, 1)] \<and> is_path_subsequence_of_path S_path path)"
  using assms
  by (auto simp: predict_path_def predict_path_argmax_def Let_def
           split: if_splits sum.splits)

lemma decode_loop_from_state:
  "decode_state rf nw S_path src k = Some (tgt, s_path_idx) \<Longrightarrow>
   decode_loop rf nw S_path src (k + m) [token_indexs rf bos] 0 =
   decode_loop rf nw S_path src m tgt s_path_idx"
proof (induction k arbitrary: m tgt s_path_idx)
  case 0
  then show ?case by simp
next
  case (Suc k)
  from Suc.prems obtain tgt' idx' link where
    st: "decode_state rf nw S_path src k = Some (tgt', idx')"
    and step: "decode_step rf nw S_path src tgt' idx' = Inr (Some (link, s_path_idx))"
    and link: "link \<noteq> token_indexs rf eos" "tgt = tgt' @ [link]"
    by (auto split: option.splits sum.splits if_splits)
  have "decode_loop rf nw S_path src (Suc k + m) [token_indexs rf bos] 0 =
        decode_loop rf nw S_path src (k + Suc m) [token_indexs rf bos] 0" by simp
  also have "\<dots> = decode_loop rf nw S_path src (Suc m) tgt' idx'"
    by (rule Suc.IH [OF st])
  also have "\<dots> = decode_loop rf nw S_path src m tgt s_path_idx"
    using step link by simp
  finally show ?case .
qed

lemma not_subsequence_remove1:
  "\<not> is_path_subsequence_of_path S_path tgt \<Longrightarrow>
   \<not> is_path_subsequence_of_path S_path (remove1 x tgt)"
proof -
  have "subseq (remove1 x tgt) tgt" by (induction tgt) auto
  then show "\<not> is_path_subsequence_of_path S_path tgt \<Longrightarrow>
   \<not> is_path_subsequence_of_path S_path (remove1 x tgt)"
    unfolding is_path_subsequence_iff_subseq using subseq_order.trans by blast
qed

text \<open>
  Claim C3, amended.  Fallback disabled.  Suppose the loop is at the start of an iteration
  \<open>k \<ge> 1\<close> (the origin is committed), the generated sequence does not yet cover the
  sparse path, and the next pending observation is not among the downstream links of the
  current segment.  If that list of downstream links is empty, or the largest of the
  predictor's scores on it is \<open>\<le> 0\<close>, then the loop ends with the sequence as it is and
  \<open>predict_path\<close> returns the empty distribution, without raising.
\<close>

theorem dead_end_gives_empty_distribution:
  assumes greedy: "path_generation_method rf = ''argmax''"
    and fallback_off: "\<not> use_shortest_path rf"
    and src: "encode_discontinuous_path (data_generator rf) nw S_path = Inr src"
    and state: "decode_state rf nw S_path src k = Some (tgt, s_path_idx)"
    and k: "1 \<le> k" "k \<le> max_len rf"
    and current: "last tgt \<noteq> token_indexs rf bos"
    and uncovered: "\<not> is_path_subsequence_of_path S_path tgt"
    and no_anchor: "\<not> (s_path_idx < length S_path \<and>
                        S_path ! s_path_idx \<in> set (neighbors nw (last tgt)))"
    and dead_end: "neighbors nw (last tgt) = [] \<or>
                   (\<exists>link_probabilities.
                      tensor_gather (model_predict rf src tgt) (neighbors nw (last tgt))
                        = Inr link_probabilities \<and>
                      torch_max link_probabilities \<le> 0)"
  shows "decode_loop rf nw S_path src (max_len rf) [token_indexs rf bos] 0 = Inr tgt \<and>
         predict_path rf nw S_path = Inr []"
proof -
  from dead_end have choose:
    "choose_by_model (model_predict rf src tgt) (neighbors nw (last tgt)) = Inr None"
    by (auto simp: choose_by_model_def)
  have step: "decode_step rf nw S_path src tgt s_path_idx = Inr None"
    using current uncovered no_anchor choose
    by (auto simp: decode_step_def Let_def)
  obtain m where m: "max_len rf = k + m" using k by (metis le_Suc_ex)
  have loop: "decode_loop rf nw S_path src (max_len rf) [token_indexs rf bos] 0 = Inr tgt"
    unfolding m decode_loop_from_state [OF state] using step by (cases m) simp_all
  have "\<not> is_path_subsequence_of_path S_path (remove1 (token_indexs rf bos) tgt)"
    using uncovered by (rule not_subsequence_remove1)
  with loop uncovered greedy fallback_off src show ?thesis
    by (simp add: predict_path_def predict_path_argmax_def)
qed

lemma neighbors_update [simp]:
  "neighbors (nw\<lparr>shortest_path := sp, link_nodes_dict := items\<rparr>) = neighbors nw"
  by (simp add: neighbors_def fun_eq_iff)

lemma get_num_links_update [simp]:
  "get_num_links (nw\<lparr>shortest_path := sp, link_nodes_dict := items\<rparr>) = get_num_links nw"
  by (simp add: get_num_links_def)

lemma construct_point_info_update [simp]:
  "construct_point_info dg (nw\<lparr>shortest_path := sp, link_nodes_dict := items\<rparr>) =
   construct_point_info dg nw"
  by (simp add: construct_point_info_def fun_eq_iff split: point.splits)

lemma encode_observed_update [simp]:
  "encode_observed dg (nw\<lparr>shortest_path := sp, link_nodes_dict := items\<rparr>) S_path =
   encode_observed dg nw S_path"
  by (induction dg nw S_path rule: encode_observed.induct) simp_all

lemma encode_discontinuous_path_update [simp]:
  "encode_discontinuous_path dg (nw\<lparr>shortest_path := sp, link_nodes_dict := items\<rparr>) S_path =
   encode_discontinuous_path dg nw S_path"
  by (simp add: encode_discontinuous_path_def)

lemma decode_step_update [simp]:
  "decode_step rf (nw\<lparr>shortest_path := sp, link_nodes_dict := items\<rparr>) =
   decode_step rf nw"
  by (simp add: decode_step_def fun_eq_iff Let_def)

lemma decode_loop_update [simp]:
  "decode_loop rf (nw\<lparr>shortest_path := sp, link_nodes_dict := items\<rparr>) S_path src n tgt i =
   decode_loop rf nw S_path src n tgt i"
  by (induction n arbitrary: tgt i) (simp_all split: sum.splits option.splits prod.splits)

lemma predict_path_without_fallback:
  "\<not> use_shortest_path rf \<Longrightarrow>
   predict_path rf nw S_path =
     (if path_generation_method rf = ''argmax''
      then (case encode_discontinuous_path (data_generator rf) nw S_path of
              Inl e \<Rightarrow> Inl e
            | Inr src \<Rightarrow>
               (case decode_loop rf nw S_path src (max_len rf) [token_indexs rf bos] 0 of
                  Inl e \<Rightarrow> Inl e
                | Inr tgt \<Rightarrow>
                    if is_path_subsequence_of_path S_path (remove1 (token_indexs rf bos) tgt)
                    then Inr [(remove1 (token_indexs rf bos) tgt, 1)] else Inr []))
      else Inr [])"
  by (auto simp: predict_path_def predict_path_argmax_def Let_def remove1_idem
           split: sum.splits)

text \<open>
  Claim C9.  An instance built by \<open>RoutesFormer_init\<close> has \<open>use_shortest_path = False\<close>
  whatever the configuration objects hold, and its \<open>predict_path\<close> never runs the
  fallback: the result does not depend on the shortest-path search or on
  \<open>link_nodes_dict\<close>, and it is the greedy path when that validates, else empty.
\<close>

theorem fresh_instance_never_uses_fallback:
  "(let rf = RoutesFormer_init transformer nw0 experiment_config method_config in
      use_shortest_path rf = False \<and>
      predict_path rf (nw\<lparr>shortest_path := sp, link_nodes_dict := items\<rparr>) S_path
        = predict_path rf nw S_path \<and>
      predict_path rf nw S_path =
        (if path_generation_method rf = ''argmax''
         then (case encode_discontinuous_path (data_generator rf) nw S_path of
                 Inl e \<Rightarrow> Inl e
               | Inr src \<Rightarrow>
                  (case decode_loop rf nw S_path src (max_len rf) [token_indexs rf bos] 0 of
                     Inl e \<Rightarrow> Inl e
                   | Inr tgt \<Rightarrow>
                       if is_path_subsequence_of_path S_path (remove1 (token_indexs rf bos) tgt)
                       then Inr [(remove1 (token_indexs rf bos) tgt, 1)] else Inr []))
         else Inr []))"
proof -
  have "\<not> use_shortest_path (RoutesFormer_init transformer nw0 experiment_config method_config)"
    by (simp add: RoutesFormer_init_def)
  then show ?thesis
    unfolding Let_def
    by (simp only: predict_path_without_fallback encode_discontinuous_path_update
        decode_loop_update simp_thms)
qed

lemma collect_length: "collect rs = Inr xs \<Longrightarrow> length xs = length rs"
  by (induction rs arbitrary: xs) (auto split: sum.splits)

lemma tensor_gather_length: "tensor_gather v js = Inr ps \<Longrightarrow> length ps = length js"
  by (auto simp: tensor_gather_def dest: collect_length)

lemma fold_max_in_set: "fold max xs (x :: real) \<in> set (x # xs)"
proof (induction xs arbitrary: x)
  case Nil
  then show ?case by simp
next
  case (Cons y ys)
  have "fold max ys (max y x) \<in> set (max y x # ys)" by (rule Cons.IH)
  moreover have "max y x = x \<or> max y x = y" by (auto simp: max_def)
  ultimately show ?case by auto
qed

lemma torch_max_in_set: "ps \<noteq> [] \<Longrightarrow> torch_max ps \<in> set ps"
  using fold_max_in_set [of "tl ps" "hd ps"] by (cases ps) (simp_all add: torch_max_def)

lemma takeWhile_neq_less: "x \<in> set xs \<Longrightarrow> length (takeWhile (\<lambda>y. y \<noteq> x) xs) < length xs"
  by (induction xs) auto

lemma torch_argmax_less: "ps \<noteq> [] \<Longrightarrow> torch_argmax ps < length ps"
  unfolding torch_argmax_def by (rule takeWhile_neq_less) (rule torch_max_in_set)

lemma choose_by_model_member:
  assumes "choose_by_model predict_val nbrs = Inr (Some link)"
  shows "link \<in> set nbrs"
proof -
  from assms obtain ps where ne: "nbrs \<noteq> []"
    and ps: "tensor_gather predict_val nbrs = Inr ps"
    and link: "link = nbrs ! torch_argmax ps"
    by (auto simp: choose_by_model_def split: if_splits sum.splits)
  from ps have len: "length ps = length nbrs" by (rule tensor_gather_length)
  with ne have "ps \<noteq> []" by auto
  then have "torch_argmax ps < length nbrs" using torch_argmax_less len by metis
  with link show ?thesis by simp
qed

lemma decode_step_link_source:
  assumes "decode_step rf nw S_path src tgt i = Inr (Some (link, i'))"
    and "link \<noteq> token_indexs rf eos"
  shows "link \<in> set S_path \<or> link \<in> set (neighbors nw (last tgt))"
  using assms
  by (auto simp: decode_step_def Let_def split: if_splits sum.splits option.splits
           dest: choose_by_model_member)

lemma decode_loop_tokens:
  assumes "decode_loop rf nw S_path src n tgt i = Inr tgt_final"
    and "set S_path \<subseteq> A" and "\<And>l. set (neighbors nw l) \<subseteq> A"
    and "tgt \<noteq> []" and "set (tl tgt) \<subseteq> A"
  shows "tgt_final \<noteq> [] \<and> hd tgt_final = hd tgt \<and> set (tl tgt_final) \<subseteq> A"
  using assms
proof (induction n arbitrary: tgt i)
  case 0
  then show ?case by simp
next
  case (Suc n)
  show ?case
  proof (cases "decode_step rf nw S_path src tgt i")
    case (Inl e)
    with Suc.prems(1) show ?thesis by simp
  next
    case (Inr r)
    show ?thesis
    proof (cases r)
      case None
      with Inr Suc.prems show ?thesis by simp
    next
      case (Some p)
      obtain link i' where p: "p = (link, i')" by (cases p)
      show ?thesis
      proof (cases "link = token_indexs rf eos")
        case True
        with Inr Some p Suc.prems show ?thesis by simp
      next
        case False
        with Inr Some p Suc.prems(1)
        have loop: "decode_loop rf nw S_path src n (tgt @ [link]) i' = Inr tgt_final" by simp
        from Inr Some p False have "link \<in> set S_path \<or> link \<in> set (neighbors nw (last tgt))"
          using decode_step_link_source by blast
        with Suc.prems(2,3) have "link \<in> A" by blast
        with Suc.prems(4,5) have "set (tl (tgt @ [link])) \<subseteq> A" by (cases tgt) auto
        from Suc.IH [OF loop Suc.prems(2,3) _ this] Suc.prems(4)
        show ?thesis by simp
      qed
    qed
  qed
qed

lemma find_link_keys: "set (find_link items a b) \<subseteq> fst ` set items"
  by (induction items a b rule: find_link.induct) auto

lemma node_path_links_keys: "set (node_path_links items nodes) \<subseteq> fst ` set items"
  using find_link_keys by (induction items nodes rule: node_path_links.induct) fastforce+

lemma stitch_links:
  "stitch nw prev rest = Inr complete_rest \<Longrightarrow>
   set complete_rest \<subseteq> set rest \<union> fst ` set (link_nodes_dict nw)"
proof (induction rest arbitrary: prev complete_rest)
  case Nil
  then show ?case by simp
next
  case (Cons curr rest)
  from Cons.prems obtain r gap where r: "stitch nw curr rest = Inr r"
    and c: "complete_rest = gap @ [curr] @ r"
    and gap: "gap = [] \<or> (\<exists>nodes. gap = node_path_links (link_nodes_dict nw) nodes)"
    by (auto split: option.splits sum.splits prod.splits if_splits)
  from gap have "set gap \<subseteq> fst ` set (link_nodes_dict nw)"
    using node_path_links_keys by auto
  with Cons.IH [OF r] c show ?case by auto
qed

lemma shortest_path_complete_links:
  "shortest_path_complete nw S_path = Inr complete_path \<Longrightarrow>
   set complete_path \<subseteq> set S_path \<union> fst ` set (link_nodes_dict nw)"
  by (auto simp: shortest_path_complete_def split: list.splits sum.splits dest!: stitch_links)

text \<open>
  Claim C10.  For a sparse path of segment ids on a network whose downstream lists and
  \<open>link_nodes_dict\<close> keys are segment ids, every path in a distribution returned by
  \<open>predict_path\<close>, from the greedy branch or from the fallback, consists of segment ids
  only: none of the four token indices \<open>num_links .. num_links + 3\<close> occurs in it.
\<close>

theorem returned_paths_hold_segments_only:
  assumes S: "\<forall>l \<in> set S_path. is_segment_id nw l"
    and adj: "\<forall>link ls. neighbor_links_O nw link = Some ls \<longrightarrow> (\<forall>l \<in> set ls. is_segment_id nw l)"
    and keys: "\<forall>(l, n1, n2) \<in> set (link_nodes_dict nw). is_segment_id nw l"
    and result: "predict_path rf nw S_path = Inr path_probability"
    and member: "(path, prob) \<in> set path_probability"
  shows "(\<forall>l \<in> set path. is_segment_id nw l) \<and> (\<forall>t. make_token_indexs nw t \<notin> set path)"
proof -
  let ?A = "{l. is_segment_id nw l}"
  have SA: "set S_path \<subseteq> ?A" using S by auto
  have NA: "set (neighbors nw l) \<subseteq> ?A" for l
  proof (cases "neighbor_links_O nw l")
    case None
    then show ?thesis by (simp add: neighbors_def)
  next
    case (Some ls)
    with adj show ?thesis by (auto simp: neighbors_def)
  qed
  have KA: "fst ` set (link_nodes_dict nw) \<subseteq> ?A" using keys by auto
  have "set path \<subseteq> ?A"
  proof -
    from result member have argmax: "predict_path_argmax rf nw S_path = Inr path_probability"
      by (auto simp: predict_path_def split: if_splits)
    then obtain src tgt_final where
      enc: "encode_discontinuous_path (data_generator rf) nw S_path = Inr src"
      and loop: "decode_loop rf nw S_path src (max_len rf) [token_indexs rf bos] 0 = Inr tgt_final"
      by (auto simp: predict_path_argmax_def split: sum.splits)
    from decode_loop_tokens [OF loop SA NA]
    have t: "tgt_final \<noteq> []" "hd tgt_final = token_indexs rf bos" "set (tl tgt_final) \<subseteq> ?A"
      by simp_all
    then have rm: "remove1 (token_indexs rf bos) tgt_final = tl tgt_final"
      and mem: "token_indexs rf bos \<in> set tgt_final"
      by (cases tgt_final; simp)+
    have fallback: "set cp \<subseteq> ?A" if "shortest_path_complete nw S_path = Inr cp" for cp
      using shortest_path_complete_links [OF that] SA KA by blast
    from argmax member have "path = tl tgt_final \<or> shortest_path_complete nw S_path = Inr path"
      by (auto simp: predict_path_argmax_def enc loop Let_def mem rm split: sum.splits if_splits)
    with t fallback show ?thesis by blast
  qed
  then have seg: "\<forall>l \<in> set path. is_segment_id nw l" by auto
  moreover have "make_token_indexs nw t \<notin> set path" for t
  proof
    assume "make_token_indexs nw t \<in> set path"
    with seg have "is_segment_id nw (make_token_indexs nw t)" by blast
    then show False by (simp add: is_segment_id_def make_token_indexs_def)
  qed
  ultimately show ?thesis by blast
qed

lemma cycle_neighbors:
  "neighbors cycle_network 0 = [1]" "neighbors cycle_network 1 = [2]"
  "neighbors cycle_network 2 = [3]" "neighbors cycle_network 3 = [0]"
  by (simp_all add: neighbors_def cycle_network_def)

lemma cycle_tokens:
  "make_token_indexs cycle_network bos = 4" "make_token_indexs cycle_network eos = 5"
  by (simp_all add: make_token_indexs_def get_num_links_def cycle_network_def)

lemma gather_uniform:
  "0 \<le> j \<Longrightarrow> j < 8 \<Longrightarrow> tensor_gather (uniform_predictor 8 c src tgt) [j] = Inr [c]"
  by (simp add: tensor_gather_def tensor_index_def uniform_predictor_def)

lemma cycle_decoding:
  assumes c: "0 < c"
    and len: "4 \<le> cfg_max_len experiment_config"
    and greedy: "cfg_path_generation_method method_config = ''argmax''"
  shows "predict_path
           (RoutesFormer_init (uniform_predictor 8 c) cycle_network experiment_config method_config)
           cycle_network [0, 3] = Inr [([0, 1, 2, 3], 1)]"
proof -
  define rf where "rf = RoutesFormer_init (uniform_predictor 8 c) cycle_network
                     experiment_config method_config"
  have fields: "token_indexs rf = make_token_indexs cycle_network"
    "model_predict rf = uniform_predictor 8 c"
    "path_generation_method rf = ''argmax''" "\<not> use_shortest_path rf"
    "max_len rf = cfg_max_len experiment_config"
    "data_generator rf = DataGenerator_init cycle_network experiment_config"
    by (simp_all add: rf_def RoutesFormer_init_def greedy)
  obtain src where src: "encode_discontinuous_path (data_generator rf) cycle_network [0, 3] = Inr src"
    using encode_succeeds [of "[0, 3]" "data_generator rf" cycle_network]
    by (auto simp: fields DataGenerator_init_def get_num_links_def cycle_network_def)
  obtain k where k: "max_len rf = Suc (Suc (Suc (Suc k)))"
  proof -
    from len fields(5) obtain j where "max_len rf = 4 + j" by (metis le_Suc_ex)
    then have "max_len rf = Suc (Suc (Suc (Suc j)))" by simp
    then show ?thesis using that by blast
  qed
  have step0: "decode_step rf cycle_network [0, 3] src [4] 0 = Inr (Some (0, 1))"
    by (simp add: decode_step_def fields cycle_tokens)
  have step1: "decode_step rf cycle_network [0, 3] src [4, 0] 1 = Inr (Some (1, 1))"
    using c by (simp add: decode_step_def fields cycle_tokens cycle_neighbors
        is_path_subsequence_iff_subseq choose_by_model_def gather_uniform torch_max_def
        torch_argmax_def)
  have step2: "decode_step rf cycle_network [0, 3] src [4, 0, 1] 1 = Inr (Some (2, 1))"
    using c by (simp add: decode_step_def fields cycle_tokens cycle_neighbors
        is_path_subsequence_iff_subseq choose_by_model_def gather_uniform torch_max_def
        torch_argmax_def)
  have step3: "decode_step rf cycle_network [0, 3] src [4, 0, 1, 2] 1 = Inr (Some (3, 2))"
    by (simp add: decode_step_def fields cycle_tokens cycle_neighbors
        is_path_subsequence_iff_subseq)
  have step4: "decode_step rf cycle_network [0, 3] src [4, 0, 1, 2, 3] 2 = Inr (Some (5, 2))"
    by (simp add: decode_step_def fields cycle_tokens cycle_neighbors
        is_path_subsequence_iff_subseq)
  have rest: "decode_loop rf cycle_network [0, 3] src k [4, 0, 1, 2, 3] 2 = Inr [4, 0, 1, 2, 3]"
    using step4 by (cases k) (simp_all add: fields cycle_tokens)
  have loop: "decode_loop rf cycle_network [0, 3] src (max_len rf) [token_indexs rf bos] 0
              = Inr [4, 0, 1, 2, 3]"
    unfolding k using step0 step1 step2 step3 rest
    by (simp add: fields cycle_tokens)
  have "predict_path rf cycle_network [0, 3] = Inr [([0, 1, 2, 3], 1)]"
    using src loop
    by (simp add: predict_path_def predict_path_argmax_def fields cycle_tokens
        is_path_subsequence_iff_subseq)
  then show ?thesis unfolding rf_def .
qed

lemma default_config_facts:
  "4 \<le> cfg_max_len default_experiment_config"
  "cfg_path_generation_method default_method_config = ''argmax''"
  by (simp_all add: default_experiment_config_def default_method_config_def)

text \<open>
  Claim C2.  On the 4-node cycle with sparse observation \<open>(0, 3)\<close>, the first iteration
  commits segment 0 whatever the predictor returns, and with a predictor that gives every
  token the same positive score, greedy decoding returns exactly the path
  \<open>(0, 1, 2, 3)\<close> with probability 1.  The loop needs four iterations to commit the four
  segments, so \<open>max_len\<close> is at least 4 (it is 30 in \<open>config.py\<close>).
\<close>

theorem cycle_scenario:
  assumes c: "0 < c"
    and len: "4 \<le> cfg_max_len experiment_config"
    and greedy: "cfg_path_generation_method method_config = ''argmax''"
  shows "(\<forall>predictor src s_path_idx.
            decode_step
              (RoutesFormer_init predictor cycle_network experiment_config method_config)
              cycle_network [0, 3] src [make_token_indexs cycle_network bos] s_path_idx
            = Inr (Some (0, 1))) \<and>
         predict_path
           (RoutesFormer_init (uniform_predictor 8 c) cycle_network experiment_config method_config)
           cycle_network [0, 3] = Inr [([0, 1, 2, 3], 1)]"
  using cycle_decoding [OF c len greedy]
  by (simp add: decode_step_def RoutesFormer_init_def)

theorem cycle_scenario_witness:
  "(0 :: real) < 1 \<and> 4 \<le> cfg_max_len default_experiment_config \<and>
   cfg_path_generation_method default_method_config = ''argmax'' \<and>
   decode_step
     (RoutesFormer_init (uniform_predictor 8 0) cycle_network default_experiment_config
        default_method_config)
     cycle_network [0, 3] [] [4] 0 = Inr (Some (0, 1)) \<and>
   predict_path
     (RoutesFormer_init (uniform_predictor 8 1) cycle_network default_experiment_config
        default_method_config)
     cycle_network [0, 3] = Inr [([0, 1, 2, 3], 1)]"
  using cycle_scenario [of 1 default_experiment_config default_method_config]
  by (simp add: default_config_facts cycle_tokens)

theorem predict_path_single_hypothesis_witness:
  "predict_path
     (RoutesFormer_init (uniform_predictor 8 1) cycle_network default_experiment_config
        default_method_config)
     cycle_network [0, 3] = Inr [([0, 1, 2, 3], 1)] \<and>
   is_path_subsequence_of_path [0, 3 :: int] [0, 1, 2, 3]"
proof -
  have r: "predict_path
     (RoutesFormer_init (uniform_predictor 8 1) cycle_network default_experiment_config
        default_method_config)
     cycle_network [0, 3] = Inr [([0, 1, 2, 3], 1)]"
    by (rule cycle_decoding) (simp_all add: default_config_facts)
  from predict_path_single_hypothesis [OF r] r show ?thesis by simp
qed

subsection \<open>The scenarios, evaluated\<close>

lemmas instance_defs =
  RoutesFormer_init_def DataGenerator_init_def small_experiment_config_def
  default_method_config_def default_experiment_config_def make_token_indexs_def
  get_num_links_def uniform_predictor_def

lemmas decode_defs =
  decode_step_def choose_by_model_def tensor_gather_def tensor_index_def torch_max_def
  torch_argmax_def neighbors_def is_path_subsequence_iff_subseq

lemmas encode_defs =
  encode_discontinuous_path_def pad_loop_replicate construct_point_info_def neighbors_def

lemma single_link_prediction:
  "encode_discontinuous_path
     (data_generator (RoutesFormer_init (uniform_predictor 5 0) single_link_network
        (small_experiment_config 4) default_method_config))
     single_link_network [0] = Inr [[1, 0], [0, 0], [2, 0], [4, 0]]"
  "decode_state
     (RoutesFormer_init (uniform_predictor 5 0) single_link_network
        (small_experiment_config 4) default_method_config)
     single_link_network [0] [[1, 0], [0, 0], [2, 0], [4, 0]] 1 = Some ([1, 0], 1)"
  "predict_path
     (RoutesFormer_init (uniform_predictor 5 0) single_link_network
        (small_experiment_config 4) default_method_config)
     single_link_network [0] = Inr [([0], 1)]"
  by (simp_all add: predict_path_def predict_path_argmax_def instance_defs encode_defs
      decode_defs single_link_network_def eval_nat_numeral)


lemma zero_score_prediction:
  "tensor_gather (uniform_predictor 8 0 src [4, 0]) (neighbors cycle_network 0) = Inr [0]"
  "predict_path
     (RoutesFormer_init (uniform_predictor 8 0) cycle_network
        (small_experiment_config 6) default_method_config)
     cycle_network [0, 1] = Inr [([0, 1], 1)]"
  by (simp_all add: predict_path_def predict_path_argmax_def instance_defs encode_defs
      decode_defs cycle_network_def eval_nat_numeral)

text \<open>
  Claim C3 as stated fails.  On the network of a single segment without downstream links
  and the sparse path \<open>(0)\<close>, the candidate list is empty after the origin is committed,
  yet the observations are covered, the end token is forced and the result is
  \<open>{(0): 1.0}\<close>.  On the cycle with sparse path \<open>(0, 1)\<close> and a predictor that scores
  every token 0, the largest score on the candidates of segment 0 is \<open>\<le> 0\<close>, yet the
  pending observation 1 is among them and is committed, and the result is
  \<open>{(0, 1): 1.0}\<close>.
\<close>

theorem dead_end_counterexample:
  "neighbors single_link_network 0 = [] \<and>
   \<not> use_shortest_path
       (RoutesFormer_init (uniform_predictor 5 0) single_link_network
          (small_experiment_config 4) default_method_config) \<and>
   decode_state
     (RoutesFormer_init (uniform_predictor 5 0) single_link_network
        (small_experiment_config 4) default_method_config)
     single_link_network [0] [[1, 0], [0, 0], [2, 0], [4, 0]] 1 = Some ([1, 0], 1) \<and>
   predict_path
     (RoutesFormer_init (uniform_predictor 5 0) single_link_network
        (small_experiment_config 4) default_method_config)
     single_link_network [0] = Inr [([0], 1)] \<and>
   neighbors cycle_network 0 = [1] \<and>
   tensor_gather (uniform_predictor 8 0 [] [4, 0]) (neighbors cycle_network 0) = Inr [0] \<and>
   torch_max [0] \<le> 0 \<and>
   predict_path
     (RoutesFormer_init (uniform_predictor 8 0) cycle_network
        (small_experiment_config 6) default_method_config)
     cycle_network [0, 1] = Inr [([0, 1], 1)]"
proof -
  have a: "neighbors single_link_network 0 = []"
    by (simp add: neighbors_def single_link_network_def)
  have b: "\<not> use_shortest_path
       (RoutesFormer_init (uniform_predictor 5 0) single_link_network
          (small_experiment_config 4) default_method_config)"
    by (simp add: RoutesFormer_init_def)
  have c: "torch_max [0] \<le> 0"
    by (simp add: torch_max_def)
  show ?thesis
    by (intro conjI)
      (rule a b c single_link_prediction zero_score_prediction cycle_neighbors)+
qed

lemma broken_cycle_run:
  "encode_discontinuous_path
     (data_generator (RoutesFormer_init (uniform_predictor 8 1) broken_cycle_network
        (small_experiment_config 6) default_method_config))
     broken_cycle_network [0, 3] = Inr [[4, 0], [0, 0], [6, 0], [3, 0], [5, 0], [7, 0]]"
  "decode_state
     (RoutesFormer_init (uniform_predictor 8 1) broken_cycle_network
        (small_experiment_config 6) default_method_config)
     broken_cycle_network [0, 3] [[4, 0], [0, 0], [6, 0], [3, 0], [5, 0], [7, 0]] 3
   = Some ([4, 0, 1, 2], 1)"
  by (simp_all add: instance_defs encode_defs decode_defs cycle_network_def
      broken_cycle_network_def eval_nat_numeral)

theorem dead_end_gives_empty_distribution_witness:
  "neighbors broken_cycle_network 2 = [] \<and>
   decode_state
     (RoutesFormer_init (uniform_predictor 8 1) broken_cycle_network
        (small_experiment_config 6) default_method_config)
     broken_cycle_network [0, 3] [[4, 0], [0, 0], [6, 0], [3, 0], [5, 0], [7, 0]] 3
   = Some ([4, 0, 1, 2], 1) \<and>
   decode_loop
     (RoutesFormer_init (uniform_predictor 8 1) broken_cycle_network
        (small_experiment_config 6) default_method_config)
     broken_cycle_network [0, 3] [[4, 0], [0, 0], [6, 0], [3, 0], [5, 0], [7, 0]] 6 [4] 0
   = Inr [4, 0, 1, 2] \<and>
   predict_path
     (RoutesFormer_init (uniform_predictor 8 1) broken_cycle_network
        (small_experiment_config 6) default_method_config)
     broken_cycle_network [0, 3] = Inr []"
proof -
  have nb: "neighbors broken_cycle_network 2 = []"
    by (simp add: neighbors_def broken_cycle_network_def cycle_network_def)
  have fields:
    "path_generation_method (RoutesFormer_init (uniform_predictor 8 1) broken_cycle_network
        (small_experiment_config 6) default_method_config) = ''argmax''"
    "\<not> use_shortest_path (RoutesFormer_init (uniform_predictor 8 1) broken_cycle_network
        (small_experiment_config 6) default_method_config)"
    "max_len (RoutesFormer_init (uniform_predictor 8 1) broken_cycle_network
        (small_experiment_config 6) default_method_config) = 6"
    "token_indexs (RoutesFormer_init (uniform_predictor 8 1) broken_cycle_network
        (small_experiment_config 6) default_method_config) bos = 4"
    by (simp_all add: instance_defs broken_cycle_network_def cycle_network_def)
  show ?thesis
    using dead_end_gives_empty_distribution
      [OF fields(1) fields(2) broken_cycle_run(1) broken_cycle_run(2),
       unfolded fields(3) fields(4)]
    by (simp add: nb broken_cycle_run is_path_subsequence_iff_subseq)
qed

theorem returned_paths_hold_segments_only_witness:
  "is_segment_id cycle_network 0 \<and> is_segment_id cycle_network 3 \<and>
   predict_path
     (RoutesFormer_init (uniform_predictor 8 1) cycle_network default_experiment_config
        default_method_config)
     cycle_network [0, 3] = Inr [([0, 1, 2, 3], 1)] \<and>
   is_segment_id cycle_network 1 \<and> is_segment_id cycle_network 2 \<and>
   (\<forall>t. make_token_indexs cycle_network t \<notin> set [0, 1, 2, 3])"
proof -
  have S: "\<forall>l \<in> set [0, 3]. is_segment_id cycle_network l"
    by (simp add: is_segment_id_def get_num_links_def cycle_network_def)
  have adj: "\<forall>link ls. neighbor_links_O cycle_network link = Some ls \<longrightarrow>
               (\<forall>l \<in> set ls. is_segment_id cycle_network l)"
    by (auto simp: is_segment_id_def get_num_links_def cycle_network_def split: if_splits)
  have keys: "\<forall>(l, n1, n2) \<in> set (link_nodes_dict cycle_network). is_segment_id cycle_network l"
    by (simp add: is_segment_id_def get_num_links_def cycle_network_def)
  have r: "predict_path
     (RoutesFormer_init (uniform_predictor 8 1) cycle_network default_experiment_config
        default_method_config)
     cycle_network [0, 3] = Inr [([0, 1, 2, 3], 1)]"
    by (rule cycle_decoding) (simp_all add: default_config_facts)
  have m: "([0, 1, 2, 3], 1) \<in> set [([0, 1, 2, 3 :: int], 1 :: real)]" by simp
  from returned_paths_hold_segments_only [OF S adj keys r m] S r show ?thesis by simp
qed

subsection \<open>Sparse observations\<close>

lemma kept_indices_ends:
  assumes "path \<noteq> []"
  shows "let kept = map (\<lambda>i. path ! i) (filter (\<lambda>i. (i = 0 \<or> i = length path - 1) \<or> P i) [0..<length path])
         in path ! 0 \<in> set kept \<and> last path \<in> set kept \<and> length kept \<le> length path"
proof -
  from assms have n: "0 < length path" by simp
  have a: "0 \<in> set (filter (\<lambda>i. (i = 0 \<or> i = length path - 1) \<or> P i) [0..<length path])"
    using n by simp
  have b: "length path - 1 \<in> set (filter (\<lambda>i. (i = 0 \<or> i = length path - 1) \<or> P i) [0..<length path])"
    using n by simp
  have c: "last path = path ! (length path - 1)" using assms by (rule last_conv_nth)
  have d: "length (filter (\<lambda>i. (i = 0 \<or> i = length path - 1) \<or> P i) [0..<length path]) \<le> length path"
    using length_filter_le [of _ "[0..<length path]"] by simp
  show ?thesis unfolding Let_def c using a b d by (auto simp del: set_filter)
qed

lemma ratio_branch_keeps_ends:
  assumes "path \<noteq> []"
    and "prepare_discontinuous_path path (Ratio r) permutation = Inr sparse"
  shows "path ! 0 \<in> set sparse \<and> last path \<in> set sparse \<and> length sparse \<le> length path"
  using assms(2) kept_indices_ends [OF assms(1)]
  by (auto simp: prepare_discontinuous_path_def Let_def)

lemma sparse_observation_keeps_ends:
  assumes "path \<noteq> []"
  shows "path ! 0 \<in> set (sparse_observation path avi_ids) \<and>
         last path \<in> set (sparse_observation path avi_ids) \<and>
         length (sparse_observation path avi_ids) \<le> length path"
  using kept_indices_ends [OF assms, of "\<lambda>i. path ! i \<in> set avi_ids"]
  by (simp add: sparse_observation_def Let_def disj_assoc)

lemma sparse_observations_loop_result:
  "sparse_observations_loop paths avi_ids acc path_idxs = Inr sparse_paths \<Longrightarrow>
   (\<forall>i \<in> set path_idxs. \<exists>path. paths i = Some path \<and>
       sparse_paths i = Some (sparse_observation path avi_ids)) \<and>
   (\<forall>i. i \<notin> set path_idxs \<longrightarrow> sparse_paths i = acc i)"
proof (induction path_idxs arbitrary: acc)
  case Nil
  then show ?case by simp
next
  case (Cons path_i path_idxs)
  from Cons.prems obtain path where p: "paths path_i = Some path"
    and r: "sparse_observations_loop paths avi_ids
              (acc(path_i \<mapsto> sparse_observation path avi_ids)) path_idxs = Inr sparse_paths"
    by (auto split: option.splits)
  from Cons.IH [OF r] p show ?case by (cases "path_i \<in> set path_idxs") auto
qed

text \<open>
  Claim C4.  The float branch of \<open>prepare_discontinuous_path\<close> and
  \<open>prepare_sparse_observations\<close> keep \<open>p[0]\<close> and \<open>p[-1]\<close> and never lengthen the path
  (the three lemmas above).  The \<open>'OD'\<close> branch returns \<open>[path[0], path[-1]]\<close> whatever
  the length of the path: for a path of one segment the sparse observation has two
  entries, one more than the path.
\<close>

theorem od_single_segment_path_grows:
  "prepare_discontinuous_path [5] OD permutation = Inr [5, 5] \<and>
   length [5 :: int] < length [5, 5 :: int]"
  by (simp add: prepare_discontinuous_path_def)

subsection \<open>Metrics on degenerate inputs\<close>


lemma aggregate_loop_replaces_nan:
  "aggregate_loop metric worst idxs items = Inr values \<Longrightarrow>
   values =
     map (\<lambda>(path_i, path_probs).
            case metric path_probs path_i of Inr (Num x) \<Rightarrow> x | _ \<Rightarrow> worst)
       (filter (\<lambda>(path_i, path_probs).
                  case idxs of None \<Rightarrow> True | Some selected \<Rightarrow> path_i \<in> set selected) items)"
  by (induction items arbitrary: "values")
    (auto split: sum.splits option.splits pyfloat.splits if_splits)





text \<open>
  Called directly with a ground-truth path of length zero and a non-empty distribution,
  \<open>calculate_path_ed\<close> and \<open>calculate_path_tlla\<close> produce no NaN: the division raises
  ZeroDivisionError, which the aggregators do not catch.  The pipeline does not make
  this call: an empty ground truth gives an empty sparse path, for which
  \<open>predict_path\<close> raises and the driver stores the empty distribution.
\<close>

lemma zero_length_ground_truth_raises:
  "calculate_path_ed [0 \<mapsto> []] Map.empty [([5], Num 1)] 0 True = Inl ZeroDivisionError \<and>
   calculate_paths_ed [0 \<mapsto> []] Map.empty [(0, [([5], Num 1)])] True None
     = Inl ZeroDivisionError \<and>
   calculate_path_tlla cycle_network [0 \<mapsto> []] Map.empty [([0], Num 1)] 0 True
     = Inl ZeroDivisionError \<and>
   calculate_paths_tlla cycle_network [0 \<mapsto> []] Map.empty [(0, [([0], Num 1)])] True None
     = Inl ZeroDivisionError"
  by (simp add: calculate_path_ed_def calculate_paths_ed_def calculate_path_tlla_def
      calculate_paths_tlla_def ground_truth_path_def)

end
